theory Spec2Isabelle
  imports Complex_Main
begin

section \<open>Values, errors and configuration\<close>

text \<open>
  The authentication service of \<^verbatim>\<open>src/services/auth.py\<close> (class \<^verbatim>\<open>Auth\<close>) and the
  lookup \<^verbatim>\<open>get_user_by_email\<close> of \<^verbatim>\<open>src/repository/users.py\<close>.

  A claim set is a Python dict from claim names to JSON values. The values covered are
  \<^verbatim>\<open>None\<close>, strings (scope, subject) and integers (the times \<^verbatim>\<open>iat\<close>, \<^verbatim>\<open>exp\<close> and
  \<^verbatim>\<open>nbf\<close>, in whole seconds since the epoch).
\<close>

datatype claim = Null | Str string | Num int

type_synonym payload = "string \<rightharpoonup> claim"

text \<open>
  Every exception the code can raise is a value. \<open>JWTError\<close> is the library's exception
  class with its subclasses, caught by the \<^verbatim>\<open>except JWTError\<close> handlers;
  \<open>HTTPException\<close> carries the status code and the detail; \<open>KeyError\<close> carries the
  missing key of a \<^verbatim>\<open>payload[...]\<close> access; \<open>TypeError\<close> is what \<^verbatim>\<open>await\<close> raises on
  an object that is not awaitable and \<^verbatim>\<open>int\<close> on \<^verbatim>\<open>None\<close>; \<open>ValueError\<close> and
  \<open>OverflowError\<close> come from the date arithmetic.
\<close>

datatype error =
    JWTError
  | HTTPException nat string
  | KeyError string
  | TypeError
  | ValueError
  | OverflowError
  | EOFError
  | UnpicklingError

text \<open>\<^verbatim>\<open>Auth.SECRET_KEY = settings.secret_key_jwt\<close>, \<^verbatim>\<open>Auth.ALGORITHM = settings.algorithm\<close>.\<close>

record settings =
  secret_key_jwt :: string
  algorithm :: string

definition SECRET_KEY :: "settings \<Rightarrow> string" where
  "SECRET_KEY self = secret_key_jwt self"

definition ALGORITHM :: "settings \<Rightarrow> string" where
  "ALGORITHM self = algorithm self"

text \<open>The defaults of \<^verbatim>\<open>src/conf/config.py\<close>.\<close>

definition default_settings :: settings where
  "default_settings = \<lparr>secret_key_jwt = ''secret_key'', algorithm = ''HS256''\<rparr>"






section \<open>Dates and durations\<close>

text \<open>
  A \<^verbatim>\<open>datetime\<close> and a \<^verbatim>\<open>timedelta\<close> count microseconds: a datetime is the number of
  microseconds since the epoch, from the first instant of year 1 to the last of year
  9999, and a timedelta is a number of microseconds of at most 999999999 days in
  magnitude. Arithmetic that leaves the range raises \<open>OverflowError\<close>.
\<close>

definition datetime_min :: int where
  "datetime_min = - 62135596800000000"

definition datetime_max :: int where
  "datetime_max = 253402300799999999"

definition timedelta_min :: int where
  "timedelta_min = - 999999999 * 86400000000"

definition timedelta_max :: int where
  "timedelta_max = 999999999 * 86400000000 + 86399999999"

definition datetime_add :: "int \<Rightarrow> int \<Rightarrow> error + int" where
  "datetime_add t td =
     (if datetime_min \<le> t + td \<and> t + td \<le> datetime_max then Inr (t + td)
      else Inl OverflowError)"

text \<open>
  A Python \<^verbatim>\<open>float\<close> is a finite number, an infinity or not a number. The finite ones
  are taken as rationals, and arithmetic on them is exact. \<^verbatim>\<open>timedelta(seconds=x)\<close>
  rounds \<open>x\<close> to the nearest microsecond, a tie to the even one; it raises
  \<open>ValueError\<close> on not-a-number and \<open>OverflowError\<close> on an infinity or beyond its range.
\<close>

datatype pyfloat = Finite rat | PosInf | NegInf | NaN

definition round_half_even :: "rat \<Rightarrow> int" where
  "round_half_even x =
     (let f = \<lfloor>x\<rfloor>; d = x - of_int f
      in if d < 1 / 2 then f
         else if 1 / 2 < d then f + 1
         else if even f then f else f + 1)"

definition timedelta_seconds :: "pyfloat \<Rightarrow> error + int" where
  "timedelta_seconds x =
     (case x of
        NaN \<Rightarrow> Inl ValueError
      | PosInf \<Rightarrow> Inl OverflowError
      | NegInf \<Rightarrow> Inl OverflowError
      | Finite r \<Rightarrow>
          (let us = round_half_even (r * 1000000)
           in if timedelta_min \<le> us \<and> us \<le> timedelta_max then Inr us
              else Inl OverflowError))"

text \<open>
  \<^verbatim>\<open>timegm(d.utctimetuple())\<close>, by which the library turns the datetime under \<^verbatim>\<open>exp\<close> or
  \<^verbatim>\<open>iat\<close> into the number the token carries, and the clock into the number it compares
  with: the whole seconds, the microseconds dropped.
\<close>

definition timegm :: "int \<Rightarrow> int" where
  "timegm t = t div 1000000"

section \<open>The token library\<close>

text \<open>
  \<^verbatim>\<open>jose.jwt\<close> is a third-party library. It is modelled symbolically: a token string is
  either the compact serialisation of a claim set signed with some key under some
  algorithm, or any other string.

  \<^verbatim>\<open>int(v)\<close>, which the library applies to the time claims: \<open>TypeError\<close> on \<^verbatim>\<open>None\<close>,
  \<open>ValueError\<close> on a string that is no decimal numeral. A numeral may have blanks around
  it, a sign, and single underscores between its digits; the characters covered are the
  ASCII ones.
\<close>

datatype token =
    Signed (signing_key: string) (header_alg: string) (claims: payload)
  | Malformed string

definition jwt_encode :: "payload \<Rightarrow> string \<Rightarrow> string \<Rightarrow> token" where
  "jwt_encode to_encode key alg = Signed key alg to_encode"

definition is_space :: "char \<Rightarrow> bool" where
  "is_space c = (let n = (of_char c :: nat) in (9 \<le> n \<and> n \<le> 13) \<or> (28 \<le> n \<and> n \<le> 32))"

definition digit_val :: "char \<Rightarrow> nat option" where
  "digit_val c =
     (let n = (of_char c :: nat) in if 48 \<le> n \<and> n \<le> 57 then Some (n - 48) else None)"

fun more_digits :: "nat \<Rightarrow> string \<Rightarrow> nat option" where
  "more_digits acc [] = Some acc"
| "more_digits acc [c] =
     (case digit_val c of None \<Rightarrow> None | Some v \<Rightarrow> Some (10 * acc + v))"
| "more_digits acc (c # d # ds) =
     (if c = CHR ''_'' then
        (case digit_val d of None \<Rightarrow> None | Some v \<Rightarrow> more_digits (10 * acc + v) ds)
      else
        (case digit_val c of None \<Rightarrow> None | Some v \<Rightarrow> more_digits (10 * acc + v) (d # ds)))"

definition digits_val :: "string \<Rightarrow> nat option" where
  "digits_val s =
     (case s of
        [] \<Rightarrow> None
      | c # cs \<Rightarrow> (case digit_val c of None \<Rightarrow> None | Some v \<Rightarrow> more_digits v cs))"

definition int_of_string :: "string \<Rightarrow> int option" where
  "int_of_string s =
     (let t = rev (dropWhile is_space (rev (dropWhile is_space s)))
      in case t of
           [] \<Rightarrow> None
         | c # cs \<Rightarrow>
             if c = CHR ''-'' then map_option (\<lambda>n. - int n) (digits_val cs)
             else if c = CHR ''+'' then map_option int (digits_val cs)
             else map_option int (digits_val t))"

definition py_int :: "claim \<Rightarrow> error + int" where
  "py_int v =
     (case v of
        Null \<Rightarrow> Inl TypeError
      | Num n \<Rightarrow> Inr n
      | Str s \<Rightarrow> (case int_of_string s of None \<Rightarrow> Inl ValueError | Some n \<Rightarrow> Inr n))"

text \<open>
  The checks \<^verbatim>\<open>jwt.decode\<close> runs on the claims, in the library's order, with no
  audience, issuer, subject or access token given, as all three consumers call it. Each
  gives the exception it raises, or \<open>None\<close> when it passes. A \<open>ValueError\<close> of \<^verbatim>\<open>int\<close> is
  caught and raised again as a \<open>JWTError\<close>; a \<open>TypeError\<close> is not caught. \<open>now\<close> is the
  clock in whole seconds, as the library reads it for the \<^verbatim>\<open>nbf\<close> and the \<^verbatim>\<open>exp\<close> check.
\<close>

definition time_claim :: "claim \<Rightarrow> error + int" where
  "time_claim v =
     (case py_int v of
        Inl e \<Rightarrow> if e = ValueError then Inl JWTError else Inl e
      | Inr n \<Rightarrow> Inr n)"

definition validate_iat :: "payload \<Rightarrow> error option" where
  "validate_iat c =
     (case c ''iat'' of
        None \<Rightarrow> None
      | Some v \<Rightarrow> (case time_claim v of Inl e \<Rightarrow> Some e | Inr _ \<Rightarrow> None))"

definition validate_nbf :: "int \<Rightarrow> payload \<Rightarrow> error option" where
  "validate_nbf now c =
     (case c ''nbf'' of
        None \<Rightarrow> None
      | Some v \<Rightarrow>
          (case time_claim v of
             Inl e \<Rightarrow> Some e
           | Inr nbf \<Rightarrow> if nbf > now then Some JWTError else None))"

definition validate_exp :: "int \<Rightarrow> payload \<Rightarrow> error option" where
  "validate_exp now c =
     (case c ''exp'' of
        None \<Rightarrow> None
      | Some v \<Rightarrow>
          (case time_claim v of
             Inl e \<Rightarrow> Some e
           | Inr e \<Rightarrow> if e < now then Some JWTError else None))"

definition validate_aud :: "payload \<Rightarrow> error option" where
  "validate_aud c = (case c ''aud'' of None \<Rightarrow> None | Some _ \<Rightarrow> Some JWTError)"

definition validate_sub :: "payload \<Rightarrow> error option" where
  "validate_sub c =
     (case c ''sub'' of None \<Rightarrow> None | Some (Str _) \<Rightarrow> None | Some _ \<Rightarrow> Some JWTError)"

definition validate_jti :: "payload \<Rightarrow> error option" where
  "validate_jti c =
     (case c ''jti'' of None \<Rightarrow> None | Some (Str _) \<Rightarrow> None | Some _ \<Rightarrow> Some JWTError)"

definition validate_at_hash :: "payload \<Rightarrow> error option" where
  "validate_at_hash c = (case c ''at_hash'' of None \<Rightarrow> None | Some _ \<Rightarrow> Some JWTError)"

fun first_error :: "error option list \<Rightarrow> error option" where
  "first_error [] = None"
| "first_error (None # xs) = first_error xs"
| "first_error (Some e # xs) = Some e"

definition validate_claims :: "int \<Rightarrow> payload \<Rightarrow> error option" where
  "validate_claims now c =
     first_error [validate_iat c, validate_nbf now c, validate_exp now c, validate_aud c,
                  validate_sub c, validate_jti c, validate_at_hash c]"

text \<open>
  \<open>jwt_decode\<close> raises \<open>JWTError\<close> on a string that is no token, on a signature made
  with another key and on an algorithm outside the accepted list; then it checks the
  claims and returns them.
\<close>

definition jwt_decode :: "int \<Rightarrow> token \<Rightarrow> string \<Rightarrow> string list \<Rightarrow> error + payload" where
  "jwt_decode now tok key algorithms =
     (case tok of
        Malformed _ \<Rightarrow> Inl JWTError
      | Signed k a c \<Rightarrow>
          if k = key \<and> a \<in> set algorithms then
            (case validate_claims now c of Some e \<Rightarrow> Inl e | None \<Rightarrow> Inr c)
          else Inl JWTError)"

section \<open>Token issuance\<close>

text \<open>
  \<^verbatim>\<open>if expires_delta:\<close> tests the truth value of an \<^verbatim>\<open>Optional[float]\<close>: \<^verbatim>\<open>None\<close> and
  zero are false, every other float is true.
\<close>

definition truthy :: "pyfloat option \<Rightarrow> bool" where
  "truthy expires_delta =
     (case expires_delta of None \<Rightarrow> False | Some (Finite r) \<Rightarrow> r \<noteq> 0 | Some _ \<Rightarrow> True)"

text \<open>
  Each issuer reads the clock twice: \<open>now\<close> is the reading of \<^verbatim>\<open>datetime.utcnow()\<close> that
  \<^verbatim>\<open>expire\<close> is computed from, \<open>now_iat\<close> the later one stored under \<^verbatim>\<open>iat\<close>.
  \<^verbatim>\<open>timedelta(minutes=15)\<close> is 900 seconds, \<^verbatim>\<open>timedelta(days=7)\<close> is 604800 and
  \<^verbatim>\<open>timedelta(days=1)\<close> is 86400. \<^verbatim>\<open>jwt.encode\<close> replaces the datetimes under \<^verbatim>\<open>exp\<close>
  and \<^verbatim>\<open>iat\<close> by their whole seconds before it signs.
\<close>

definition create_access_token ::
  "settings \<Rightarrow> payload \<Rightarrow> pyfloat option \<Rightarrow> int \<Rightarrow> int \<Rightarrow> error + token" where
  "create_access_token self data expires_delta now now_iat =
     (let to_encode = data in
      case (if truthy expires_delta then
              (case timedelta_seconds (the expires_delta) of
                 Inl e \<Rightarrow> Inl e
               | Inr td \<Rightarrow> datetime_add now td)
            else datetime_add now (15 * 60 * 1000000)) of
        Inl e \<Rightarrow> Inl e
      | Inr expire \<Rightarrow>
          (let to_encode = to_encode(''iat'' \<mapsto> Num (timegm now_iat),
                                     ''exp'' \<mapsto> Num (timegm expire),
                                     ''scope'' \<mapsto> Str ''access_token'')
           in Inr (jwt_encode to_encode (SECRET_KEY self) (ALGORITHM self))))"

definition create_refresh_token ::
  "settings \<Rightarrow> payload \<Rightarrow> pyfloat option \<Rightarrow> int \<Rightarrow> int \<Rightarrow> error + token" where
  "create_refresh_token self data expires_delta now now_iat =
     (let to_encode = data in
      case (if truthy expires_delta then
              (case timedelta_seconds (the expires_delta) of
                 Inl e \<Rightarrow> Inl e
               | Inr td \<Rightarrow> datetime_add now td)
            else datetime_add now (7 * 24 * 60 * 60 * 1000000)) of
        Inl e \<Rightarrow> Inl e
      | Inr expire \<Rightarrow>
          (let to_encode = to_encode(''iat'' \<mapsto> Num (timegm now_iat),
                                     ''exp'' \<mapsto> Num (timegm expire),
                                     ''scope'' \<mapsto> Str ''refresh_token'')
           in Inr (jwt_encode to_encode (SECRET_KEY self) (ALGORITHM self))))"

definition create_email_token :: "settings \<Rightarrow> payload \<Rightarrow> int \<Rightarrow> int \<Rightarrow> error + token" where
  "create_email_token self data now now_iat =
     (let to_encode = data in
      case datetime_add now (1 * 24 * 60 * 60 * 1000000) of
        Inl e \<Rightarrow> Inl e
      | Inr expire \<Rightarrow>
          (let to_encode = to_encode(''iat'' \<mapsto> Num (timegm now_iat),
                                     ''exp'' \<mapsto> Num (timegm expire),
                                     ''scope'' \<mapsto> Str ''email_token'')
           in Inr (jwt_encode to_encode (SECRET_KEY self) (ALGORITHM self))))"

section \<open>Refresh and verification tokens\<close>

text \<open>
  Each consumer catches \<open>JWTError\<close> only: any other exception of the library, and the
  exceptions raised inside the \<^verbatim>\<open>try\<close> block, pass through.
\<close>

definition decode_refresh_token :: "settings \<Rightarrow> int \<Rightarrow> token \<Rightarrow> error + claim" where
  "decode_refresh_token self now refresh_token =
     (case jwt_decode now refresh_token (SECRET_KEY self) [ALGORITHM self] of
        Inl e \<Rightarrow>
          if e = JWTError then Inl (HTTPException 401 ''Could not validate credentials'')
          else Inl e
      | Inr payload \<Rightarrow>
          (case payload ''scope'' of
             None \<Rightarrow> Inl (KeyError ''scope'')
           | Some scope \<Rightarrow>
               if scope = Str ''refresh_token'' then
                 (case payload ''sub'' of
                    None \<Rightarrow> Inl (KeyError ''sub'')
                  | Some email \<Rightarrow> Inr email)
               else Inl (HTTPException 401 ''Invalid scope for token'')))"

definition get_email_from_token :: "settings \<Rightarrow> int \<Rightarrow> token \<Rightarrow> error + claim" where
  "get_email_from_token self now tok =
     (case jwt_decode now tok (SECRET_KEY self) [ALGORITHM self] of
        Inl e \<Rightarrow>
          if e = JWTError then Inl (HTTPException 422 ''Invalid token for email verification'')
          else Inl e
      | Inr payload \<Rightarrow>
          (case payload ''scope'' of
             None \<Rightarrow> Inl (KeyError ''scope'')
           | Some scope \<Rightarrow>
               if scope = Str ''email_token'' then
                 (case payload ''sub'' of
                    None \<Rightarrow> Inl (KeyError ''sub'')
                  | Some email \<Rightarrow> Inr email)
               else Inl (HTTPException 401 ''Invalid scope for token'')))"

section \<open>Users, the persistence store and the cache\<close>

text \<open>
  Modelled from the spec: the \<^verbatim>\<open>User\<close> class of \<^verbatim>\<open>src/database/models.py\<close>, which is
  not among the sources. The fields are the attributes the specification lists for a
  user, with \<^verbatim>\<open>username\<close>, which \<^verbatim>\<open>src/routes/users.py\<close> reads.
\<close>

record user =
  user_id :: nat
  user_username :: string
  user_email :: string
  user_password :: string
  user_confirmed :: bool
  user_refresh_token :: "string option"
  user_avatar :: "string option"

text \<open>
  \<^verbatim>\<open>pickle.dumps\<close> and \<^verbatim>\<open>pickle.loads\<close>: a byte string is either the pickle of a user
  or a string that is no pickle at all. Of the latter the empty one raises \<open>EOFError\<close>,
  any other \<open>UnpicklingError\<close>. Pickles of other objects are not covered.
\<close>

datatype bytes = Pickled user | Other string

definition pickle_dumps :: "user \<Rightarrow> bytes" where
  "pickle_dumps u = Pickled u"

definition pickle_loads :: "bytes \<Rightarrow> error + user" where
  "pickle_loads b =
     (case b of
        Pickled u \<Rightarrow> Inr u
      | Other s \<Rightarrow> if s = [] then Inl EOFError else Inl UnpicklingError)"

text \<open>
  The state outside the process: the entries of the key-value cache, each a value with
  its time to live in seconds (\<open>None\<close>: the entry never expires), and the log of the calls
  made to the cache and to the persistence store, in order.
\<close>

datatype call =
    Get string
  | Set string bytes
  | Expire string nat
  | Query claim

record entry =
  val :: bytes
  ttl :: "nat option"

record world =
  cache :: "string \<rightharpoonup> entry"
  calls :: "call list"

text \<open>
  Calling a function gives either a plain object or, for an \<^verbatim>\<open>async def\<close>, a coroutine.
  \<^verbatim>\<open>await\<close> takes the result out of a coroutine and raises \<open>TypeError\<close> on a plain
  object.
\<close>

datatype 'a obj = Plain 'a | Coroutine 'a

definition await :: "'a obj \<times> world \<Rightarrow> (error + 'a) \<times> world" where
  "await r = (case r of
                (Coroutine v, w) \<Rightarrow> (Inr v, w)
              | (Plain v, w) \<Rightarrow> (Inl TypeError, w))"

text \<open>
  \<^verbatim>\<open>self.redis = redis_db.Redis(...)\<close> with \<^verbatim>\<open>import redis as redis_db\<close>: the blocking
  client of the \<^verbatim>\<open>redis\<close> package. Each method sends its command when it is called and
  returns the reply as a plain object: \<^verbatim>\<open>get\<close> the value or \<^verbatim>\<open>None\<close>, \<^verbatim>\<open>set\<close> and
  \<^verbatim>\<open>expire\<close> a truth value. \<^verbatim>\<open>SET\<close> stores the value with no time to live;
  \<^verbatim>\<open>EXPIRE\<close> gives an existing entry one.
\<close>

definition redis_get :: "string \<Rightarrow> world \<Rightarrow> bytes option obj \<times> world" where
  "redis_get name w =
     (Plain (map_option val (cache w name)), w\<lparr>calls := calls w @ [Get name]\<rparr>)"

definition redis_set :: "string \<Rightarrow> bytes \<Rightarrow> world \<Rightarrow> bool obj \<times> world" where
  "redis_set name v w =
     (Plain True,
      w\<lparr>cache := (cache w)(name \<mapsto> \<lparr>val = v, ttl = None\<rparr>),
        calls := calls w @ [Set name v]\<rparr>)"

definition redis_expire :: "string \<Rightarrow> nat \<Rightarrow> world \<Rightarrow> bool obj \<times> world" where
  "redis_expire name secs w =
     (case cache w name of
        None \<Rightarrow> (Plain False, w\<lparr>calls := calls w @ [Expire name secs]\<rparr>)
      | Some e \<Rightarrow>
          (Plain True,
           w\<lparr>cache := (cache w)(name \<mapsto> e\<lparr>ttl := Some secs\<rparr>),
             calls := calls w @ [Expire name secs]\<rparr>))"

text \<open>
  \<^verbatim>\<open>db.query(User).filter(User.email == email).first()\<close>: the table is the list of its
  rows, and the result is the first row whose email equals the argument, or \<^verbatim>\<open>None\<close>.
  The function is an \<^verbatim>\<open>async def\<close>.
\<close>

definition get_user_by_email :: "claim \<Rightarrow> user list \<Rightarrow> world \<Rightarrow> user option obj \<times> world" where
  "get_user_by_email email db w =
     (Coroutine (find (\<lambda>u. Str (user_email u) = email) db),
      w\<lparr>calls := calls w @ [Query email]\<rparr>)"

text \<open>What an f-string puts in for a claim value: Python's \<^verbatim>\<open>str\<close>.\<close>

fun nat_str :: "nat \<Rightarrow> string" where
  "nat_str n =
     (if n < 10 then [''0123456789'' ! n]
      else nat_str (n div 10) @ [''0123456789'' ! (n mod 10)])"

declare nat_str.simps [simp del]

definition py_str :: "claim \<Rightarrow> string" where
  "py_str v =
     (case v of
        Null \<Rightarrow> ''None''
      | Str s \<Rightarrow> s
      | Num i \<Rightarrow> if i < 0 then CHR ''-'' # nat_str (nat (- i)) else nat_str (nat i))"

section \<open>The session guard\<close>

definition credentials_exception :: error where
  "credentials_exception = HTTPException 401 ''Could not validate credentials''"

definition get_current_user ::
  "settings \<Rightarrow> int \<Rightarrow> token \<Rightarrow> user list \<Rightarrow> world \<Rightarrow> (error + user) \<times> world" where
  "get_current_user self now tok db w =
     (case jwt_decode now tok (SECRET_KEY self) [ALGORITHM self] of
        Inl e \<Rightarrow>
          if e = JWTError then (Inl credentials_exception, w) else (Inl e, w)
      | Inr payload \<Rightarrow>
          (case payload ''scope'' of
             None \<Rightarrow> (Inl (KeyError ''scope''), w)
           | Some scope \<Rightarrow>
               if scope = Str ''access_token'' then
                 (case payload ''sub'' of
                    None \<Rightarrow> (Inl (KeyError ''sub''), w)
                  | Some email \<Rightarrow>
                      if email = Null then (Inl credentials_exception, w)
                      else
                        (case redis_get (''user:'' @ py_str email) w of
                           (Plain None, w1) \<Rightarrow>
                             (case await (get_user_by_email email db w1) of
                                (Inl e, w2) \<Rightarrow> (Inl e, w2)
                              | (Inr None, w2) \<Rightarrow> (Inl credentials_exception, w2)
                              | (Inr (Some user), w2) \<Rightarrow>
                                  (let user_data = pickle_dumps user in
                                   case await (redis_set (''user:'' @ py_str email) user_data w2) of
                                     (Inl e, w3) \<Rightarrow> (Inl e, w3)
                                   | (Inr _, w3) \<Rightarrow>
                                       (case await (redis_expire (''user:'' @ py_str email) 900 w3) of
                                          (Inl e, w4) \<Rightarrow> (Inl e, w4)
                                        | (Inr _, w4) \<Rightarrow> (Inr user, w4))))
                         | (Plain (Some user_data), w1) \<Rightarrow>
                             (case pickle_loads user_data of
                                Inl e \<Rightarrow> (Inl e, w1)
                              | Inr user \<Rightarrow> (Inr user, w1))
                         | (Coroutine _, w1) \<Rightarrow> (Inl TypeError, w1)))
               else (Inl credentials_exception, w)))"

section \<open>Example data\<close>

definition example_user :: user where
  "example_user =
     \<lparr>user_id = 1, user_username = ''a'', user_email = ''a@example.com'',
      user_password = ''hash'', user_confirmed = True, user_refresh_token = None,
      user_avatar = None\<rparr>"

definition empty_world :: world where
  "empty_world = \<lparr>cache = Map.empty, calls = []\<rparr>"

text \<open>
  The tokens the three issuers give for the subject \<^verbatim>\<open>a@example.com\<close> when the clock
  reads 1000 seconds.
\<close>

definition example_access_token :: token where
  "example_access_token =
     jwt_encode [''sub'' \<mapsto> Str ''a@example.com'', ''iat'' \<mapsto> Num 1000, ''exp'' \<mapsto> Num 1900,
                 ''scope'' \<mapsto> Str ''access_token''] ''secret_key'' ''HS256''"

definition example_refresh_token :: token where
  "example_refresh_token =
     jwt_encode [''sub'' \<mapsto> Str ''a@example.com'', ''iat'' \<mapsto> Num 1000, ''exp'' \<mapsto> Num 605800,
                 ''scope'' \<mapsto> Str ''refresh_token''] ''secret_key'' ''HS256''"

definition example_email_token :: token where
  "example_email_token =
     jwt_encode [''sub'' \<mapsto> Str ''a@example.com'', ''iat'' \<mapsto> Num 1000, ''exp'' \<mapsto> Num 87400,
                 ''scope'' \<mapsto> Str ''email_token''] ''secret_key'' ''HS256''"

section \<open>Properties\<close>

lemmas issue_defs = create_access_token_def create_refresh_token_def create_email_token_def
  jwt_encode_def truthy_def SECRET_KEY_def ALGORITHM_def default_settings_def
  datetime_add_def datetime_min_def datetime_max_def timegm_def timedelta_seconds_def
  timedelta_min_def timedelta_max_def round_half_even_def Let_def

lemmas decode_defs = jwt_decode_def validate_claims_def validate_iat_def validate_nbf_def
  validate_exp_def validate_aud_def validate_sub_def validate_jti_def validate_at_hash_def
  time_claim_def py_int_def

lemmas guard_defs = get_current_user_def credentials_exception_def redis_get_def redis_set_def
  redis_expire_def get_user_by_email_def await_def pickle_dumps_def pickle_loads_def py_str_def
  Let_def

lemmas example_defs = example_access_token_def example_refresh_token_def
  example_email_token_def example_user_def empty_world_def


text \<open>The example tokens are the ones the issuers give, and they decode.\<close>

lemma issued_examples:
  "create_access_token default_settings [''sub'' \<mapsto> Str ''a@example.com''] None
     1000000000 1000000007 = Inr example_access_token"
  "create_refresh_token default_settings [''sub'' \<mapsto> Str ''a@example.com''] None
     1000000000 1000000007 = Inr example_refresh_token"
  "create_email_token default_settings [''sub'' \<mapsto> Str ''a@example.com'']
     1000000000 1000000007 = Inr example_email_token"
  by (simp_all add: issue_defs example_defs)

lemma example_decodes:
  "jwt_decode 1000 example_access_token (SECRET_KEY default_settings)
     [ALGORITHM default_settings] = Inr (claims example_access_token)"
  "jwt_decode 1000 example_refresh_token (SECRET_KEY default_settings)
     [ALGORITHM default_settings] = Inr (claims example_refresh_token)"
  "jwt_decode 1000 example_email_token (SECRET_KEY default_settings)
     [ALGORITHM default_settings] = Inr (claims example_email_token)"
  by (simp_all add: issue_defs decode_defs example_defs)

subsection \<open>Rounding and whole seconds\<close>









subsection \<open>Decoding\<close>







text \<open>
  A time claim that is \<^verbatim>\<open>None\<close> makes the library raise \<open>TypeError\<close>, which no consumer
  catches.
\<close>

lemma null_time_claim_raises_TypeError:
  "get_current_user default_settings 1000
     (jwt_encode [''sub'' \<mapsto> Str ''a@example.com'', ''exp'' \<mapsto> Null,
                  ''scope'' \<mapsto> Str ''refresh_token''] ''secret_key'' ''HS256'')
     [example_user] empty_world = (Inl TypeError, empty_world)"
  by (simp add: issue_defs decode_defs guard_defs)

subsection \<open>The session guard\<close>

text \<open>
  C1, at the scenario the specification gives: an access token for
  \<^verbatim>\<open>sub = "a@example.com"\<close>, an empty cache, a persistence store that holds the user. The
  claim expects the user back and the snapshot cached with a time to live of 900 seconds.
  The code looks the key up, queries the store and runs \<^verbatim>\<open>set\<close>; the client is the
  blocking one, so \<^verbatim>\<open>set\<close> returns a plain truth value and \<^verbatim>\<open>await\<close> raises
  \<open>TypeError\<close> on it. No user is returned, \<^verbatim>\<open>expire\<close> is never called, and the entry
  stays in the cache with no time to live.
\<close>

theorem cache_miss_await_raises:
  "create_access_token default_settings [''sub'' \<mapsto> Str ''a@example.com''] None
     1000000000 1000000007 = Inr example_access_token \<and>
   get_current_user default_settings 1000 example_access_token [example_user] empty_world =
   (Inl TypeError,
    \<lparr>cache = [''user:a@example.com'' \<mapsto> \<lparr>val = pickle_dumps example_user, ttl = None\<rparr>],
     calls = [Get ''user:a@example.com'', Query (Str ''a@example.com''),
              Set ''user:a@example.com'' (pickle_dumps example_user)]\<rparr>)"
  by (simp add: issue_defs decode_defs guard_defs example_defs)

text \<open>The same happens on every miss that the persistence store can answer.\<close>

lemma cache_miss_general:
  assumes "jwt_decode now tok (SECRET_KEY self) [ALGORITHM self] = Inr payload"
      and "payload ''scope'' = Some (Str ''access_token'')"
      and "payload ''sub'' = Some (Str email)"
      and "cache w (''user:'' @ email) = None"
      and "find (\<lambda>u. user_email u = email) db = Some u"
  shows "get_current_user self now tok db w =
           (Inl TypeError,
            w\<lparr>cache := (cache w)(''user:'' @ email \<mapsto> \<lparr>val = pickle_dumps u, ttl = None\<rparr>),
              calls := calls w @ [Get (''user:'' @ email), Query (Str email),
                                  Set (''user:'' @ email) (pickle_dumps u)]\<rparr>)"
  using assms by (simp add: guard_defs)

text \<open>
  C2: a token that decodes under the configured secret and algorithm with a scope claim
  other than \<^verbatim>\<open>"access_token"\<close> makes the guard fail with the 401 error whose detail is
  \<^verbatim>\<open>"Could not validate credentials"\<close>. No user is returned, and neither the cache nor the
  persistence store is touched.
\<close>

theorem wrong_scope_rejected:
  assumes "jwt_decode now tok (SECRET_KEY self) [ALGORITHM self] = Inr payload"
      and "payload ''scope'' = Some scope"
      and "scope \<noteq> Str ''access_token''"
  shows "get_current_user self now tok db w =
           (Inl (HTTPException 401 ''Could not validate credentials''), w)"
  using assms by (simp add: get_current_user_def credentials_exception_def)

text \<open>C2 at the refresh token and at the email-verification token.\<close>

theorem wrong_scope_rejected_witness:
  "create_refresh_token default_settings [''sub'' \<mapsto> Str ''a@example.com''] None
     1000000000 1000000007 = Inr example_refresh_token \<and>
   get_current_user default_settings 1000 example_refresh_token [example_user] empty_world =
     (Inl (HTTPException 401 ''Could not validate credentials''), empty_world) \<and>
   create_email_token default_settings [''sub'' \<mapsto> Str ''a@example.com'']
     1000000000 1000000007 = Inr example_email_token \<and>
   get_current_user default_settings 1000 example_email_token [example_user] empty_world =
     (Inl (HTTPException 401 ''Could not validate credentials''), empty_world)"
proof -
  have rs: "claims example_refresh_token ''scope'' = Some (Str ''refresh_token'')"
    by (simp add: example_defs jwt_encode_def)
  have ms: "claims example_email_token ''scope'' = Some (Str ''email_token'')"
    by (simp add: example_defs jwt_encode_def)
  have rn: "Str ''refresh_token'' \<noteq> Str ''access_token''" by simp
  have mn: "Str ''email_token'' \<noteq> Str ''access_token''" by simp
  show ?thesis
    using wrong_scope_rejected [OF example_decodes(2) rs rn]
      wrong_scope_rejected [OF example_decodes(3) ms mn] issued_examples
    by simp
qed

text \<open>
  C3, at the access token issued for a claim set without subject. The claim expects the
  uniform 401 error. The code reads \<^verbatim>\<open>payload["sub"]\<close>, which raises \<open>KeyError\<close> on the
  missing key before the test \<^verbatim>\<open>email is None\<close> is reached, and no handler catches it.
\<close>

theorem missing_subject_raises_KeyError:
  "create_access_token default_settings Map.empty None 1000000000 1000000007 =
     Inr (jwt_encode [''iat'' \<mapsto> Num 1000, ''exp'' \<mapsto> Num 1900, ''scope'' \<mapsto> Str ''access_token'']
            ''secret_key'' ''HS256'') \<and>
   get_current_user default_settings 1000
     (jwt_encode [''iat'' \<mapsto> Num 1000, ''exp'' \<mapsto> Num 1900, ''scope'' \<mapsto> Str ''access_token'']
        ''secret_key'' ''HS256'')
     [example_user] empty_world =
   (Inl (KeyError ''sub''), empty_world)"
  by (simp add: issue_defs decode_defs guard_defs)

text \<open>
  So it is for every token that decodes with the access scope and no subject; the
  uniform error is raised when the subject is present and \<^verbatim>\<open>None\<close>.
\<close>

lemma missing_subject_general:
  assumes "jwt_decode now tok (SECRET_KEY self) [ALGORITHM self] = Inr payload"
      and "payload ''scope'' = Some (Str ''access_token'')"
      and "payload ''sub'' = None"
  shows "get_current_user self now tok db w = (Inl (KeyError ''sub''), w)"
  using assms by (simp add: get_current_user_def)

lemma null_subject_rejected:
  assumes "jwt_decode now tok (SECRET_KEY self) [ALGORITHM self] = Inr payload"
      and "payload ''scope'' = Some (Str ''access_token'')"
      and "payload ''sub'' = Some Null"
  shows "get_current_user self now tok db w = (Inl credentials_exception, w)"
  using assms by (simp add: get_current_user_def)

text \<open>
  C5: for a valid access token whose subject is in neither the cache nor the persistence
  store, the guard fails with the 401 error after one cache lookup and one store query;
  the cache is as it was, nothing is written under the key.
\<close>

theorem unknown_user_rejected:
  assumes "jwt_decode now tok (SECRET_KEY self) [ALGORITHM self] = Inr payload"
      and "payload ''scope'' = Some (Str ''access_token'')"
      and "payload ''sub'' = Some (Str email)"
      and "cache w (''user:'' @ email) = None"
      and "\<forall>u \<in> set db. user_email u \<noteq> email"
  shows "get_current_user self now tok db w =
           (Inl (HTTPException 401 ''Could not validate credentials''),
            w\<lparr>calls := calls w @ [Get (''user:'' @ email), Query (Str email)]\<rparr>)"
proof -
  have "find (\<lambda>u. Str (user_email u) = Str email) db = None"
    using assms(5) by (simp add: find_None_iff)
  then show ?thesis using assms(1-4) by (simp add: guard_defs)
qed

text \<open>C5 at a store whose only user has another email.\<close>

theorem unknown_user_rejected_witness:
  "get_current_user default_settings 1000 example_access_token
     [example_user\<lparr>user_email := ''b@example.com''\<rparr>] empty_world =
   (Inl (HTTPException 401 ''Could not validate credentials''),
    \<lparr>cache = Map.empty,
     calls = [Get ''user:a@example.com'', Query (Str ''a@example.com'')]\<rparr>)"
proof -
  have sc: "claims example_access_token ''scope'' = Some (Str ''access_token'')"
    by (simp add: example_defs jwt_encode_def)
  have su: "claims example_access_token ''sub'' = Some (Str ''a@example.com'')"
    by (simp add: example_defs jwt_encode_def)
  have c: "cache empty_world (''user:'' @ ''a@example.com'') = None"
    by (simp add: empty_world_def)
  have s: "\<forall>u \<in> set [example_user\<lparr>user_email := ''b@example.com''\<rparr>].
             user_email u \<noteq> ''a@example.com''"
    by simp
  show ?thesis
    using unknown_user_rejected [OF example_decodes(1) sc su c s] by (simp add: empty_world_def)
qed

text \<open>
  C6: for a valid access token whose key is in the cache, the guard returns the
  unpickled snapshot after one cache lookup. The persistence store is not queried, so the
  result is the same whatever the store holds by then, and the cache is unchanged.
\<close>

theorem cache_hit_returns_snapshot:
  assumes "jwt_decode now tok (SECRET_KEY self) [ALGORITHM self] = Inr payload"
      and "payload ''scope'' = Some (Str ''access_token'')"
      and "payload ''sub'' = Some (Str email)"
      and "cache w (''user:'' @ email) = Some ent"
      and "val ent = pickle_dumps u"
  shows "get_current_user self now tok db w =
           (Inr u, w\<lparr>calls := calls w @ [Get (''user:'' @ email)]\<rparr>)"
  using assms by (simp add: guard_defs)

text \<open>
  C6 at a store whose row has changed since the snapshot was taken: the guard still
  returns the snapshot.
\<close>

theorem cache_hit_returns_snapshot_witness:
  "get_current_user default_settings 1000 example_access_token
     [example_user\<lparr>user_confirmed := False, user_avatar := Some ''http://img''\<rparr>]
     \<lparr>cache = [''user:a@example.com'' \<mapsto> \<lparr>val = pickle_dumps example_user, ttl = Some 900\<rparr>],
      calls = []\<rparr> =
   (Inr example_user,
    \<lparr>cache = [''user:a@example.com'' \<mapsto> \<lparr>val = pickle_dumps example_user, ttl = Some 900\<rparr>],
     calls = [Get ''user:a@example.com'']\<rparr>)"
proof -
  let ?e = "\<lparr>val = pickle_dumps example_user, ttl = Some 900\<rparr>"
  let ?w = "\<lparr>cache = [''user:a@example.com'' \<mapsto> ?e], calls = []\<rparr>"
  have sc: "claims example_access_token ''scope'' = Some (Str ''access_token'')"
    by (simp add: example_defs jwt_encode_def)
  have su: "claims example_access_token ''sub'' = Some (Str ''a@example.com'')"
    by (simp add: example_defs jwt_encode_def)
  have c: "cache ?w (''user:'' @ ''a@example.com'') = Some ?e" by simp
  have v: "val ?e = pickle_dumps example_user" by simp
  show ?thesis
    using cache_hit_returns_snapshot [OF example_decodes(1) sc su c v] by simp
qed

subsection \<open>Issuing and verifying tokens\<close>



text \<open>
  C8, where the lifetime is given as 0. The claim puts \<open>expires_at\<close> at \<open>now + 0\<close>,
  that is 1000; the docstring of the refresh issuer ties the default to an omitted
  lifetime. \<^verbatim>\<open>if expires_delta:\<close> takes 0 for omitted, so the access token expires at
  \<open>now + 900\<close> and the refresh token at \<open>now + 604800\<close>.
\<close>

theorem zero_lifetime_gets_default:
  "create_access_token default_settings [''sub'' \<mapsto> Str ''a@example.com'']
     (Some (Finite 0)) 1000000000 1000000007 =
     Inr (jwt_encode [''sub'' \<mapsto> Str ''a@example.com'', ''iat'' \<mapsto> Num 1000, ''exp'' \<mapsto> Num 1900,
                      ''scope'' \<mapsto> Str ''access_token''] ''secret_key'' ''HS256'') \<and>
   create_refresh_token default_settings [''sub'' \<mapsto> Str ''a@example.com'']
     (Some (Finite 0)) 1000000000 1000000007 =
     Inr (jwt_encode [''sub'' \<mapsto> Str ''a@example.com'', ''iat'' \<mapsto> Num 1000, ''exp'' \<mapsto> Num 605800,
                      ''scope'' \<mapsto> Str ''refresh_token''] ''secret_key'' ''HS256'')"
  by (simp add: issue_defs)




subsection \<open>The email-verification token\<close>

text \<open>
  C9 as stated fails at a well-signed token of another scope: the failure is the 401
  error \<^verbatim>\<open>"Invalid scope for token"\<close>, not the 422 error of a token that does not
  verify.
\<close>

theorem access_token_wrong_scope_for_email:
  "get_email_from_token default_settings 1000 example_access_token =
   Inl (HTTPException 401 ''Invalid scope for token'')"
  by (simp add: issue_defs decode_defs example_defs get_email_from_token_def)

text \<open>
  C9, amended: when decoding raises \<open>JWTError\<close>, the failure is the 422 error
  \<^verbatim>\<open>"Invalid token for email verification"\<close>; when the token decodes with a scope claim
  other than \<^verbatim>\<open>"email_token"\<close>, the failure is the 401 error \<^verbatim>\<open>"Invalid scope for token"\<close>;
  when it decodes with the scope \<^verbatim>\<open>"email_token"\<close> and a subject, the subject is
  returned.
\<close>

theorem email_token_outcomes:
  "(jwt_decode now tok (SECRET_KEY self) [ALGORITHM self] = Inl JWTError \<longrightarrow>
      get_email_from_token self now tok =
        Inl (HTTPException 422 ''Invalid token for email verification'')) \<and>
   (jwt_decode now tok (SECRET_KEY self) [ALGORITHM self] = Inr payload \<and>
    payload ''scope'' = Some scope \<and> scope \<noteq> Str ''email_token'' \<longrightarrow>
      get_email_from_token self now tok = Inl (HTTPException 401 ''Invalid scope for token'')) \<and>
   (jwt_decode now tok (SECRET_KEY self) [ALGORITHM self] = Inr payload \<and>
    payload ''scope'' = Some (Str ''email_token'') \<and> payload ''sub'' = Some email \<longrightarrow>
      get_email_from_token self now tok = Inr email)"
  by (simp add: get_email_from_token_def)

text \<open>C9 at a string that is no token, at the refresh token and at the email token.\<close>

theorem email_token_outcomes_witness:
  "get_email_from_token default_settings 1000 (Malformed ''not.a.token'') =
     Inl (HTTPException 422 ''Invalid token for email verification'') \<and>
   get_email_from_token default_settings 1000 example_refresh_token =
     Inl (HTTPException 401 ''Invalid scope for token'') \<and>
   get_email_from_token default_settings 1000 example_email_token =
     Inr (Str ''a@example.com'')"
proof -
  let ?r = "claims example_refresh_token"
  let ?m = "claims example_email_token"
  have g: "jwt_decode 1000 (Malformed ''not.a.token'')
             (SECRET_KEY default_settings) [ALGORITHM default_settings] = Inl JWTError"
    by (simp add: jwt_decode_def)
  have r: "jwt_decode 1000 example_refresh_token (SECRET_KEY default_settings)
             [ALGORITHM default_settings] = Inr ?r \<and>
           ?r ''scope'' = Some (Str ''refresh_token'') \<and> Str ''refresh_token'' \<noteq> Str ''email_token''"
    using example_decodes(2) by (simp add: example_defs jwt_encode_def)
  have m: "jwt_decode 1000 example_email_token (SECRET_KEY default_settings)
             [ALGORITHM default_settings] = Inr ?m \<and>
           ?m ''scope'' = Some (Str ''email_token'') \<and> ?m ''sub'' = Some (Str ''a@example.com'')"
    using example_decodes(3) by (simp add: example_defs jwt_encode_def)
  have 1: "get_email_from_token default_settings 1000 (Malformed ''not.a.token'') =
             Inl (HTTPException 422 ''Invalid token for email verification'')"
    using email_token_outcomes [where tok = "Malformed ''not.a.token''"] g by blast
  have 2: "get_email_from_token default_settings 1000 example_refresh_token =
             Inl (HTTPException 401 ''Invalid scope for token'')"
    using email_token_outcomes [where tok = example_refresh_token and payload = ?r] r by blast
  have 3: "get_email_from_token default_settings 1000 example_email_token =
             Inr (Str ''a@example.com'')"
    using email_token_outcomes [where tok = example_email_token and payload = ?m] m by blast
  show ?thesis using 1 2 3 by simp
qed

subsection \<open>A payload without scope\<close>

text \<open>
  C10: a token that is signed with the configured secret and is not expired, but
  carries no \<^verbatim>\<open>scope\<close> claim, makes each of the three consumers raise \<open>KeyError\<close> for
  the key \<^verbatim>\<open>scope\<close>, not the HTTP error it documents.
\<close>

theorem missing_scope_raises_KeyError:
  assumes "jwt_decode now tok (SECRET_KEY self) [ALGORITHM self] = Inr payload"
      and "payload ''scope'' = None"
  shows "get_current_user self now tok db w = (Inl (KeyError ''scope''), w) \<and>
         decode_refresh_token self now tok = Inl (KeyError ''scope'') \<and>
         get_email_from_token self now tok = Inl (KeyError ''scope'')"
  using assms
  by (simp add: get_current_user_def decode_refresh_token_def get_email_from_token_def)

text \<open>C10 at a token with a subject and an expiry only.\<close>

theorem missing_scope_raises_KeyError_witness:
  "get_current_user default_settings 1000
     (jwt_encode [''sub'' \<mapsto> Str ''a@example.com'', ''exp'' \<mapsto> Num 1900] ''secret_key'' ''HS256'')
     [example_user] empty_world = (Inl (KeyError ''scope''), empty_world) \<and>
   decode_refresh_token default_settings 1000
     (jwt_encode [''sub'' \<mapsto> Str ''a@example.com'', ''exp'' \<mapsto> Num 1900] ''secret_key'' ''HS256'') =
     Inl (KeyError ''scope'') \<and>
   get_email_from_token default_settings 1000
     (jwt_encode [''sub'' \<mapsto> Str ''a@example.com'', ''exp'' \<mapsto> Num 1900] ''secret_key'' ''HS256'') =
     Inl (KeyError ''scope'')"
proof -
  let ?p = "[''sub'' \<mapsto> Str ''a@example.com'', ''exp'' \<mapsto> Num 1900]"
  have d: "jwt_decode 1000 (jwt_encode ?p ''secret_key'' ''HS256'')
             (SECRET_KEY default_settings) [ALGORITHM default_settings] = Inr ?p"
    by (simp add: issue_defs decode_defs)
  have s: "?p ''scope'' = None" by simp
  show ?thesis by (rule missing_scope_raises_KeyError [OF d s])
qed

end
